theory Spec2Isabelle
  imports Main "HOL-Library.FSet"
begin

section \<open>Text operations (server/src/utils/ot.ts)\<close>

text \<open>
  The interface \<^verbatim>\<open>TextOperation\<close> of ot.ts. The string union
  \<^verbatim>\<open>'insert' | 'delete'\<close> is a two-constructor datatype, the optional fields
  \<^verbatim>\<open>text?\<close> and \<^verbatim>\<open>length?\<close> are options (\<open>None\<close> is JavaScript's
  \<^verbatim>\<open>undefined\<close>). A \<^verbatim>\<open>number\<close> is a double; the model holds the doubles that
  are integers, negative ones included, as \<open>int\<close>: a field holds an integer that
  \<open>round_double\<close> below leaves as it is. Fractions, NaN and the infinities are
  outside the model. A JavaScript string is the list of its code units.
  Fields whose names clash with Isabelle keywords or list functions carry the suffix
  \<open>_op\<close>.
\<close>

datatype op_type = Insert | Delete

record TextOperation =
  type_op :: op_type
  position :: int
  text_op :: "string option"
  length_op :: "int option"
  userId :: string
  documentId :: string
  timestamp :: int
  version :: int

text \<open>
  What a function throws: \<^verbatim>\<open>new Error(message)\<close>, or the \<^verbatim>\<open>TypeError\<close> of a call
  of something that is not a function.
\<close>

datatype error = Error string | TypeError string

subsection \<open>Addition and subtraction of doubles\<close>

text \<open>
  \<^verbatim>\<open>x + y\<close> and \<^verbatim>\<open>x - y\<close> on doubles return the double nearest to the exact
  result, the one with the even significand on a tie. A significand has 53 bits, so the
  exact result \<open>z\<close> of two integers is kept when its magnitude is at most \<open>2 ^ 53\<close>;
  beyond, the \<open>e\<close> low bits that do not fit are rounded away. \<open>excess_bits n\<close> is
  that \<open>e\<close>: the least number of halvings that bring \<open>n\<close> below \<open>2 ^ 53\<close>.
  Results beyond the largest double (about \<open>2 ^ 1024\<close>) are outside the model.
\<close>

fun excess_bits :: "nat \<Rightarrow> nat" where
  "excess_bits n = (if n < 2 ^ 53 then 0 else Suc (excess_bits (n div 2)))"

declare excess_bits.simps [simp del]

definition round_double :: "int \<Rightarrow> int" where
  "round_double z =
     (let n = nat \<bar>z\<bar>;
          e = excess_bits n;
          q = n div 2 ^ e;
          r = n mod 2 ^ e;
          q' = (if 2 ^ e < 2 * r \<or> (2 * r = 2 ^ e \<and> odd q) then q + 1 else q)
      in sgn z * int (q' * 2 ^ e))"

definition add_double :: "int \<Rightarrow> int \<Rightarrow> int" where
  "add_double x y = round_double (x + y)"

definition sub_double :: "int \<Rightarrow> int \<Rightarrow> int" where
  "sub_double x y = round_double (x - y)"

subsection \<open>String.prototype.slice\<close>

text \<open>
  \<^verbatim>\<open>s.slice(start, end)\<close> on integer arguments: a negative index counts from the end
  of the string, every index is cut to \<open>[0, length s]\<close>, and the result is empty when
  the start is not before the end. \<^verbatim>\<open>s.slice(start)\<close> runs to the end of the string.
\<close>

definition slice_index :: "nat \<Rightarrow> int \<Rightarrow> nat" where
  "slice_index len i = (if i < 0 then nat (max (int len + i) 0) else nat (min i (int len)))"

definition slice :: "string \<Rightarrow> int \<Rightarrow> int \<Rightarrow> string" where
  "slice s start end =
     (let from = slice_index (length s) start;
          to = slice_index (length s) end
      in if to \<le> from then [] else take (to - from) (drop from s))"

definition slice_from :: "string \<Rightarrow> int \<Rightarrow> string" where
  "slice_from s start = drop (slice_index (length s) start) s"

subsection \<open>applyInsert, applyDelete, applyOperation\<close>

text \<open>
  \<^verbatim>\<open>!operation.text\<close> holds for a missing and for an empty text,
  \<^verbatim>\<open>!operation.length\<close> for a missing and for a zero length. A \<^verbatim>\<open>throw\<close> is the
  left injection.
\<close>

definition applyInsert :: "string \<Rightarrow> TextOperation \<Rightarrow> error + string" where
  "applyInsert content operation =
     (case text_op operation of
        None \<Rightarrow> Inl (Error ''Invalid insert operation'')
      | Some txt \<Rightarrow>
          if type_op operation \<noteq> Insert \<or> txt = []
          then Inl (Error ''Invalid insert operation'')
          else
            let pos = min (position operation) (int (length content))
            in Inr (slice content 0 pos @ txt @ slice_from content pos))"

definition applyDelete :: "string \<Rightarrow> TextOperation \<Rightarrow> error + string" where
  "applyDelete content operation =
     (case length_op operation of
        None \<Rightarrow> Inl (Error ''Invalid delete operation'')
      | Some n \<Rightarrow>
          if type_op operation \<noteq> Delete \<or> n = 0
          then Inl (Error ''Invalid delete operation'')
          else
            let pos = min (position operation) (int (length content));
                len = min n (sub_double (int (length content)) pos)
            in Inr (slice content 0 pos @ slice_from content (add_double pos len)))"

text \<open>
  The \<^verbatim>\<open>default\<close> branch of the switch (\<^verbatim>\<open>Unknown operation type\<close>) is not reachable
  from a value of the declared type.
\<close>

definition applyOperation :: "string \<Rightarrow> TextOperation \<Rightarrow> error + string" where
  "applyOperation content operation =
     (case type_op operation of
        Insert \<Rightarrow> applyInsert content operation
      | Delete \<Rightarrow> applyDelete content operation)"

subsection \<open>transformOperation\<close>

definition transformOperation :: "TextOperation \<Rightarrow> TextOperation \<Rightarrow> TextOperation" where
  "transformOperation operation against =
     (if userId operation = userId against \<or> documentId operation \<noteq> documentId against
      then operation
      else if timestamp against < timestamp operation
      then
        (case type_op against of
           Insert \<Rightarrow>
             (case text_op against of
                None \<Rightarrow> operation
              | Some txt \<Rightarrow>
                  if txt \<noteq> [] \<and> position against \<le> position operation
                  then operation\<lparr>position :=
                         add_double (position operation) (int (length txt))\<rparr>
                  else operation)
         | Delete \<Rightarrow>
             (case length_op against of
                None \<Rightarrow> operation
              | Some n \<Rightarrow>
                  if n \<noteq> 0 \<and> position against < position operation
                  then
                    let overlap =
                          max 0 (sub_double (add_double (position against) n)
                                   (position operation))
                    in operation\<lparr>position :=
                         sub_double (position operation) (sub_double n overlap)\<rparr>
                  else operation))
      else operation)"

subsection \<open>The Edit Applier as the specification words it\<close>

text \<open>
  Section 4.4 of the specification: the position is clamped to \<open>[0, length buffer]\<close>,
  the deletion length to at most \<open>length buffer - position\<close>, a delete needs a positive
  length. These two definitions follow the specification, not ot.ts; they are what
  \<open>applyInsert\<close> and \<open>applyDelete\<close> are compared with.
\<close>

definition applyInsert_spec :: "string \<Rightarrow> TextOperation \<Rightarrow> error + string" where
  "applyInsert_spec buffer operation =
     (case text_op operation of
        None \<Rightarrow> Inl (Error ''Invalid insert operation'')
      | Some txt \<Rightarrow>
          if type_op operation = Insert \<and> txt \<noteq> []
          then
            let pos = nat (max 0 (min (position operation) (int (length buffer))))
            in Inr (take pos buffer @ txt @ drop pos buffer)
          else Inl (Error ''Invalid insert operation''))"

definition applyDelete_spec :: "string \<Rightarrow> TextOperation \<Rightarrow> error + string" where
  "applyDelete_spec buffer operation =
     (case length_op operation of
        None \<Rightarrow> Inl (Error ''Invalid delete operation'')
      | Some n \<Rightarrow>
          if type_op operation = Delete \<and> 0 < n
          then
            let pos = nat (max 0 (min (position operation) (int (length buffer))));
                len = min (nat n) (length buffer - pos)
            in Inr (take pos buffer @ drop (pos + len) buffer)
          else Inl (Error ''Invalid delete operation''))"

section \<open>Presence registry and socket handlers (server/src/socket.ts)\<close>

text \<open>
  \<^verbatim>\<open>activeDocuments: Record<string, Set<string>>\<close> starts as the plain object
  \<^verbatim>\<open>{}\<close>. Its own properties are a map from document identifiers to finite sets of
  user identifiers; the order in which \<^verbatim>\<open>Array.from\<close> lists a set is not modelled.
  A handler takes the registry and returns the new registry, the calls it made on the
  socket, in order (\<^verbatim>\<open>socket.join\<close>, \<^verbatim>\<open>socket.leave\<close>,
  \<^verbatim>\<open>socket.to(room).emit\<close>, \<^verbatim>\<open>socket.emit\<close>), and the error it threw, if any.
  socket.ts declares \<^verbatim>\<open>TextOperation\<close> without the field \<^verbatim>\<open>version\<close>; the relay
  forwards the object as it came, so the record of ot.ts stands for it. The parameters
  \<^verbatim>\<open>documentId\<close> and \<^verbatim>\<open>userId\<close> of the handlers are \<open>docId\<close> and \<open>uid\<close>
  here, the longer names being fields of the record.
\<close>

type_synonym registry = "string \<rightharpoonup> string fset"

datatype server_message =
    UserJoined string "string fset"
  | ActiveUsers "string fset"
  | OperationRelay TextOperation
  | CursorRelay string int
  | UserLeft string "string fset"

datatype effect =
    SocketJoin string
  | SocketLeave string
  | EmitToRoom string server_message
  | EmitToSender server_message

datatype client_event =
    JoinDocument string string
  | DocumentOperation TextOperation
  | CursorPosition string string int
  | LeaveDocument string string
  | Disconnect

text \<open>
  The read \<^verbatim>\<open>activeDocuments[documentId]\<close>. An own property gives its set. A name
  that is not an own property is looked up in \<^verbatim>\<open>Object.prototype\<close>, which a plain
  object inherits from: there the read gives a function, or for \<^verbatim>\<open>__proto__\<close> the
  prototype itself, a truthy value that has neither \<^verbatim>\<open>add\<close> nor \<^verbatim>\<open>delete\<close>. Any
  other name gives \<^verbatim>\<open>undefined\<close>. The list is that of ECMAScript with its Annex B.
\<close>

definition objectPrototypeKeys :: "string list" where
  "objectPrototypeKeys =
     [''constructor'', ''__defineGetter__'', ''__defineSetter__'', ''hasOwnProperty'',
      ''__lookupGetter__'', ''__lookupSetter__'', ''isPrototypeOf'',
      ''propertyIsEnumerable'', ''toString'', ''valueOf'', ''__proto__'',
      ''toLocaleString'']"

datatype property = Undefined | UserSet "string fset" | Inherited

definition getProperty :: "registry \<Rightarrow> string \<Rightarrow> property" where
  "getProperty activeDocuments docId =
     (case activeDocuments docId of
        Some users \<Rightarrow> UserSet users
      | None \<Rightarrow> if docId \<in> set objectPrototypeKeys then Inherited else Undefined)"

text \<open>
  The specification's \<open>members\<close>: the set that the registry holds for a document,
  the empty set where it holds none.
\<close>

definition members :: "registry \<Rightarrow> string \<Rightarrow> string fset" where
  "members activeDocuments docId =
     (case activeDocuments docId of None \<Rightarrow> {||} | Some users \<Rightarrow> users)"

text \<open>
  The \<^verbatim>\<open>join-document\<close> handler. \<^verbatim>\<open>socket.join\<close> comes first. A set and an
  inherited value are truthy, so a new set is stored only where the read gives
  \<^verbatim>\<open>undefined\<close>. On an inherited value the call of \<^verbatim>\<open>add\<close> throws, before
  anything is emitted.
\<close>

definition onJoinDocument ::
  "registry \<Rightarrow> string \<Rightarrow> string \<Rightarrow> registry \<times> effect list \<times> error option" where
  "onJoinDocument activeDocuments docId uid =
     (case getProperty activeDocuments docId of
        Inherited \<Rightarrow>
          (activeDocuments, [SocketJoin docId],
           Some (TypeError ''activeDocuments[documentId].add is not a function''))
      | Undefined \<Rightarrow>
          let users = finsert uid {||}
          in (activeDocuments(docId \<mapsto> users),
              [SocketJoin docId,
               EmitToRoom docId (UserJoined uid users),
               EmitToSender (ActiveUsers users)],
              None)
      | UserSet s \<Rightarrow>
          let users = finsert uid s
          in (activeDocuments(docId \<mapsto> users),
              [SocketJoin docId,
               EmitToRoom docId (UserJoined uid users),
               EmitToSender (ActiveUsers users)],
              None))"

text \<open>
  \<^verbatim>\<open>handleUserLeaveDocument\<close>: \<^verbatim>\<open>socket.leave\<close> comes first and does not depend on
  the registry; the rest runs where the read is truthy. On an inherited value the call
  of \<^verbatim>\<open>delete\<close> throws.
\<close>

definition handleUserLeaveDocument ::
  "registry \<Rightarrow> string \<Rightarrow> string \<Rightarrow> registry \<times> effect list \<times> error option" where
  "handleUserLeaveDocument activeDocuments docId uid =
     (case getProperty activeDocuments docId of
        Undefined \<Rightarrow> (activeDocuments, [SocketLeave docId], None)
      | Inherited \<Rightarrow>
          (activeDocuments, [SocketLeave docId],
           Some (TypeError ''activeDocuments[documentId].delete is not a function''))
      | UserSet s \<Rightarrow>
          let users = s |-| {|uid|}
          in (if fcard users = 0
              then activeDocuments(docId := None)
              else activeDocuments(docId \<mapsto> users),
              [SocketLeave docId, EmitToRoom docId (UserLeft uid users)],
              None))"

text \<open>
  The handlers that \<^verbatim>\<open>setupSocketHandlers\<close> registers on a connection, one equation
  per event. The body of the \<^verbatim>\<open>disconnect\<close> handler only logs.
\<close>

fun socketHandler ::
  "registry \<Rightarrow> client_event \<Rightarrow> registry \<times> effect list \<times> error option" where
  "socketHandler activeDocuments (JoinDocument docId uid) =
     onJoinDocument activeDocuments docId uid"
| "socketHandler activeDocuments (DocumentOperation operation) =
     (activeDocuments, [EmitToRoom (documentId operation) (OperationRelay operation)], None)"
| "socketHandler activeDocuments (CursorPosition docId uid pos) =
     (activeDocuments, [EmitToRoom docId (CursorRelay uid pos)], None)"
| "socketHandler activeDocuments (LeaveDocument docId uid) =
     handleUserLeaveDocument activeDocuments docId uid"
| "socketHandler activeDocuments Disconnect = (activeDocuments, [], None)"

text \<open>
  A run of the server: the events arrive one at a time, each tagged with the
  \<^verbatim>\<open>socket.id\<close> of its connection. No handler reads the identifier: the server keeps
  no table from connections to users or documents. The run goes on after a handler
  that threw, with the registry as the throw left it; a process that the exception
  ends has the runs without that continuation.
\<close>

fun run :: "registry \<Rightarrow> (string \<times> client_event) list \<Rightarrow> registry" where
  "run activeDocuments [] = activeDocuments"
| "run activeDocuments ((socketId, ev) # evs) =
     run (fst (socketHandler activeDocuments ev)) evs"

text \<open>
  The invariant of the specification's data model: no document of the registry has an
  empty set of users.
\<close>

definition registry_inv :: "registry \<Rightarrow> bool" where
  "registry_inv activeDocuments = (\<forall>docId. activeDocuments docId \<noteq> Some {||})"

section \<open>Client session store (client/src/contexts/EditorContext.tsx)\<close>

text \<open>
  \<^verbatim>\<open>applyOperation\<close> of the editor context, here \<open>applyOperation_client\<close> (the name
  is taken by ot.ts). \<open>user\<close> is \<^verbatim>\<open>user.id\<close>, \<open>None\<close> when no user is logged in.
  \<open>decode\<close> stands for the draft-js calls
  \<^verbatim>\<open>EditorState.createWithContent(convertFromRaw(JSON.parse(text)))\<close>, \<open>None\<close> when they
  throw: the \<^verbatim>\<open>catch\<close> block logs and leaves the state as it was.
\<close>

definition applyOperation_client ::
  "(string \<Rightarrow> 'e option) \<Rightarrow> string option \<Rightarrow> 'e \<Rightarrow> TextOperation \<Rightarrow> 'e" where
  "applyOperation_client decode user editorState operation =
     (if user = Some (userId operation) then editorState
      else
        (case text_op operation of
           None \<Rightarrow> editorState
         | Some txt \<Rightarrow>
             if type_op operation = Insert \<and> txt \<noteq> []
             then (case decode txt of None \<Rightarrow> editorState | Some newState \<Rightarrow> newState)
             else editorState))"

text \<open>
  The mobile client (mobile/src/contexts/EditorContext.tsx) keeps the content as a plain
  string and stores the text of the operation as it is.
\<close>

definition applyOperation_mobile :: "string option \<Rightarrow> string \<Rightarrow> TextOperation \<Rightarrow> string" where
  "applyOperation_mobile user documentContent operation =
     (if user = Some (userId operation) then documentContent
      else
        (case text_op operation of
           None \<Rightarrow> documentContent
         | Some txt \<Rightarrow>
             if type_op operation = Insert \<and> txt \<noteq> [] then txt else documentContent))"

section \<open>Auxiliary facts\<close>

lemma slice_0_nonneg: "0 \<le> p \<Longrightarrow> p \<le> int (length s) \<Longrightarrow> slice s 0 p = take (nat p) s"
  by (auto simp: slice_def slice_index_def Let_def)

lemma slice_from_nonneg: "0 \<le> p \<Longrightarrow> slice_from s p = drop (nat p) s"
  by (auto simp: slice_from_def slice_index_def min_def)

subsection \<open>Doubles\<close>

lemma excess_bits_small: "n < 9007199254740992 \<Longrightarrow> excess_bits n = 0"
  by (subst excess_bits.simps) simp

lemma excess_bits_one:
  "9007199254740992 \<le> n \<Longrightarrow> n < 18014398509481984 \<Longrightarrow> excess_bits n = Suc 0"
proof -
  assume lo: "9007199254740992 \<le> n" and hi: "n < 18014398509481984"
  from hi have "n div 2 < 9007199254740992"
    by simp
  then have "excess_bits (n div 2) = 0"
    by (rule excess_bits_small)
  moreover from lo have "excess_bits n = Suc (excess_bits (n div 2))"
    by (subst excess_bits.simps) simp
  ultimately show ?thesis
    by simp
qed

text \<open>Up to \<open>2 ^ 53\<close> every integer is a double, and the arithmetic is exact.\<close>

lemma round_double_exact: "\<bar>z\<bar> \<le> 2 ^ 53 \<Longrightarrow> round_double z = z"
proof (cases "\<bar>z\<bar> < 9007199254740992")
  case True
  then have "excess_bits (nat \<bar>z\<bar>) = 0"
    by (intro excess_bits_small) simp
  then show ?thesis
    by (simp add: round_double_def Let_def sgn_if)
next
  case False
  assume "\<bar>z\<bar> \<le> 2 ^ 53"
  with False have "z = 9007199254740992 \<or> z = - 9007199254740992"
    by (simp add: abs_if split: if_splits)
  then show ?thesis
    by (auto simp: round_double_def Let_def excess_bits_one)
qed

lemma add_double_exact: "\<bar>x + y\<bar> \<le> 2 ^ 53 \<Longrightarrow> add_double x y = x + y"
  by (simp add: add_double_def round_double_exact)

lemma sub_double_exact: "\<bar>x - y\<bar> \<le> 2 ^ 53 \<Longrightarrow> sub_double x y = x - y"
  by (simp add: sub_double_def round_double_exact)

text \<open>The first integer that is not a double lies half way between two: the tie goes
  to the even significand.\<close>

lemma round_double_tie: "round_double 9007199254740993 = 9007199254740992"
  by (simp add: round_double_def Let_def excess_bits_one)

lemma round_double_tie_neg: "round_double (- 9007199254740993) = - 9007199254740992"
  by (simp add: round_double_def Let_def excess_bits_one)

lemma round_double_tie_odd: "round_double 9007199254740995 = 9007199254740996"
  by (simp add: round_double_def Let_def excess_bits_one)

subsection \<open>The registry\<close>

lemma getProperty_own:
  "d \<notin> set objectPrototypeKeys \<Longrightarrow>
     getProperty reg d = (case reg d of None \<Rightarrow> Undefined | Some s \<Rightarrow> UserSet s)"
  by (simp add: getProperty_def split: option.splits)

lemma getProperty_inherited:
  "d \<in> set objectPrototypeKeys \<Longrightarrow> reg d = None \<Longrightarrow> getProperty reg d = Inherited"
  by (simp add: getProperty_def)

lemma join_registry:
  "d \<notin> set objectPrototypeKeys \<Longrightarrow>
     fst (onJoinDocument reg d u) = reg(d \<mapsto> finsert u (members reg d))"
  by (simp add: onJoinDocument_def getProperty_own members_def Let_def split: option.splits)

lemma join_registry_any:
  "fst (onJoinDocument reg d u) =
     (if getProperty reg d = Inherited then reg else reg(d \<mapsto> finsert u (members reg d)))"
  by (auto simp: onJoinDocument_def getProperty_def members_def Let_def
      split: option.splits property.splits if_splits)

lemma leave_registry:
  "fst (handleUserLeaveDocument reg d u) =
     (case reg d of None \<Rightarrow> reg
      | Some s \<Rightarrow> if s |-| {|u|} = {||} then reg(d := None) else reg(d \<mapsto> s |-| {|u|}))"
  by (simp add: handleUserLeaveDocument_def getProperty_def Let_def split: option.splits)

lemma members_upd: "members (reg(d \<mapsto> s)) d = s"
  by (simp add: members_def)

lemma members_untracked: "reg d = None \<Longrightarrow> members reg d = {||}"
  by (simp add: members_def)

lemma fold_join_gen:
  assumes step: "\<And>u r. f u r = r(d \<mapsto> finsert u (members r d))"
  shows "fold f us reg =
     (if us = [] then reg else reg(d \<mapsto> members reg d |\<union>| fset_of_list us))"
proof (induction us arbitrary: reg)
  case Nil
  show ?case by simp
next
  case (Cons u us)
  have "fold f (u # us) reg = fold f us (f u reg)"
    by simp
  also have "\<dots> = (if us = [] then f u reg
      else (f u reg)(d \<mapsto> members (f u reg) d |\<union>| fset_of_list us))"
    by (rule Cons.IH)
  also have "\<dots> = reg(d \<mapsto> members reg d |\<union>| fset_of_list (u # us))"
    by (simp add: step members_upd)
  finally show ?case by simp
qed

lemma fold_join:
  "d \<notin> set objectPrototypeKeys \<Longrightarrow>
   fold (\<lambda>u r. fst (socketHandler r (JoinDocument d u))) us reg =
     (if us = [] then reg else reg(d \<mapsto> members reg d |\<union>| fset_of_list us))"
  by (rule fold_join_gen) (simp add: join_registry)

lemma fold_join_inherited:
  "d \<in> set objectPrototypeKeys \<Longrightarrow> reg d = None \<Longrightarrow>
   fold (\<lambda>u r. fst (socketHandler r (JoinDocument d u))) us reg = reg"
  by (induction us) (simp_all add: join_registry_any getProperty_inherited)

lemma fcard_distinct: "distinct us \<Longrightarrow> fcard (fset_of_list us) = length us"
  by (simp add: fcard.rep_eq fset_of_list.rep_eq distinct_card)

lemma handler_inv: "registry_inv reg \<Longrightarrow> registry_inv (fst (socketHandler reg ev))"
proof (cases ev)
  case (JoinDocument d u)
  assume "registry_inv reg"
  then show ?thesis unfolding JoinDocument
    by (simp add: registry_inv_def join_registry_any)
next
  case (LeaveDocument d u)
  assume "registry_inv reg"
  then show ?thesis unfolding LeaveDocument
    by (auto simp: registry_inv_def leave_registry split: option.splits)
qed (simp_all)

lemma run_inv: "registry_inv reg \<Longrightarrow> registry_inv (run reg tr)"
  by (induction reg tr rule: run.induct) (simp_all add: handler_inv)

section \<open>The Edit Applier on non-negative offsets\<close>

text \<open>
  Where the position is not negative, \<open>applyInsert\<close> is the insert of the
  specification, and where the length is not negative either, \<open>applyDelete\<close> is its
  delete: the upper clamps are the specification's, and the errors are the same. (No
  string is longer than \<open>2 ^ 53\<close>, so the differences of offsets are exact.)
\<close>

lemma applyInsert_nonneg:
  "0 \<le> position operation \<Longrightarrow>
     applyInsert content operation = applyInsert_spec content operation"
  by (auto simp: applyInsert_def applyInsert_spec_def Let_def slice_0_nonneg
      slice_from_nonneg min_def max_def split: option.splits)

lemma applyDelete_nonneg:
  assumes "0 \<le> position operation"
    and "\<And>n. length_op operation = Some n \<Longrightarrow> 0 \<le> n"
    and len: "int (length content) \<le> 2 ^ 53"
  shows "applyDelete content operation = applyDelete_spec content operation"
proof (cases "length_op operation")
  case None
  then show ?thesis by (simp add: applyDelete_def applyDelete_spec_def)
next
  case (Some n)
  with assms have n: "0 \<le> n" by simp
  define pos where "pos = min (position operation) (int (length content))"
  from assms(1) have pos: "0 \<le> pos" "pos \<le> int (length content)"
    by (simp_all add: pos_def)
  with len have d: "sub_double (int (length content)) pos = int (length content) - pos"
    by (intro sub_double_exact) simp
  define k where "k = min n (int (length content) - pos)"
  from n pos have k: "0 \<le> k" "pos + k \<le> int (length content)"
    by (simp_all add: k_def)
  with pos len have a: "add_double pos k = pos + k"
    by (intro add_double_exact) simp
  have code: "applyDelete content operation =
      (if type_op operation \<noteq> Delete \<or> n = 0
       then Inl (Error ''Invalid delete operation'')
       else Inr (slice content 0 pos @ slice_from content (pos + k)))"
    by (simp add: applyDelete_def Some Let_def pos_def [symmetric] d k_def [symmetric] a)
  from pos k have "slice content 0 pos = take (nat pos) content"
    and "slice_from content (pos + k) = drop (nat (pos + k)) content"
    by (simp_all add: slice_0_nonneg slice_from_nonneg)
  moreover from assms(1) have "nat (max 0 (min (position operation) (int (length content))))
      = nat pos"
    by (simp add: pos_def)
  moreover from n pos k have "nat pos + min (nat n) (length content - nat pos) = nat (pos + k)"
    unfolding k_def by arith
  ultimately show ?thesis
    using n by (auto simp: code applyDelete_spec_def Some Let_def)
qed

lemma applyInsert_fails_iff:
  "isl (applyInsert content operation) \<longleftrightarrow>
     type_op operation \<noteq> Insert \<or> text_op operation = None \<or> text_op operation = Some []"
  by (auto simp: applyInsert_def Let_def split: option.splits)

lemma applyDelete_fails_iff:
  "isl (applyDelete content operation) \<longleftrightarrow>
     type_op operation \<noteq> Delete \<or> length_op operation = None \<or> length_op operation = Some 0"
  by (auto simp: applyDelete_def Let_def split: option.splits)

lemma applyInsert_clamps_high:
  "applyInsert ''hello''
     \<lparr>type_op = Insert, position = 10, text_op = Some ''!'', length_op = None,
      userId = ''u'', documentId = ''d'', timestamp = 0, version = 0\<rparr> = Inr ''hello!''"
  by (simp add: applyInsert_def slice_def slice_from_def slice_index_def)

lemma applyDelete_clamps_length:
  "applyDelete ''hello''
     \<lparr>type_op = Delete, position = 2, text_op = None, length_op = Some 100,
      userId = ''u'', documentId = ''d'', timestamp = 0, version = 0\<rparr> = Inr ''he''"
  by (simp add: applyDelete_def slice_def slice_from_def slice_index_def
      add_double_exact sub_double_exact)

lemma applyOperation_mobile_client:
  "applyOperation_mobile user content operation =
     applyOperation_client Some user content operation"
  by (simp add: applyOperation_mobile_def applyOperation_client_def split: option.splits)

section \<open>The registry on document identifiers that are not inherited names\<close>

text \<open>
  For a document identifier that is not a property name of \<^verbatim>\<open>Object.prototype\<close> the
  registry is a map to sets. A second join of the same user gives what the first gave;
  from an untracked document, joins by the users of a duplicate-free list leave as many
  members as the list is long, and two lists with the same users leave the same
  registry; a join followed by the leave of the same user gives the registry back.
\<close>

lemma join_twice:
  "socketHandler (fst (socketHandler reg (JoinDocument d u))) (JoinDocument d u)
     = socketHandler reg (JoinDocument d u)"
  by (auto simp: onJoinDocument_def getProperty_def Let_def
      split: option.splits property.splits if_splits)

lemma joins_own_key:
  assumes "d \<notin> set objectPrototypeKeys"
  shows "reg d = None \<Longrightarrow> distinct us \<Longrightarrow>
      fcard (members (fold (\<lambda>u r. fst (socketHandler r (JoinDocument d u))) us reg) d)
        = length us"
    and "set us = set vs \<Longrightarrow>
      fold (\<lambda>u r. fst (socketHandler r (JoinDocument d u))) us reg
        = fold (\<lambda>u r. fst (socketHandler r (JoinDocument d u))) vs reg"
proof -
  assume "reg d = None" "distinct us"
  then show "fcard (members (fold (\<lambda>u r. fst (socketHandler r (JoinDocument d u))) us reg) d)
      = length us"
    unfolding fold_join [OF assms]
    by (simp add: members_upd members_untracked fcard_distinct)
next
  assume "set us = set vs"
  moreover from this have "fset_of_list us = fset_of_list vs"
    by (simp add: fset_of_list.abs_eq)
  ultimately show "fold (\<lambda>u r. fst (socketHandler r (JoinDocument d u))) us reg
      = fold (\<lambda>u r. fst (socketHandler r (JoinDocument d u))) vs reg"
    unfolding fold_join [OF assms] by auto
qed

lemma join_then_leave:
  "reg d = None \<Longrightarrow>
     fst (socketHandler (fst (socketHandler reg (JoinDocument d u))) (LeaveDocument d u)) = reg"
  by (simp add: join_registry_any leave_registry members_untracked fun_upd_idem)

text \<open>
  The set is created by the first join, the key is deleted by the leave of the last
  member, and under the invariant the leave of a user who is not a member returns
  without an error and without a change of the registry.
\<close>

lemma first_join_own_key:
  "d \<notin> set objectPrototypeKeys \<Longrightarrow> reg d = None \<Longrightarrow>
     fst (socketHandler reg (JoinDocument d u)) d = Some {|u|}
     \<and> snd (snd (socketHandler reg (JoinDocument d u))) = None"
  by (simp add: onJoinDocument_def getProperty_own Let_def)

lemma last_leave:
  "reg d = Some {|u|} \<Longrightarrow> fst (socketHandler reg (LeaveDocument d u)) d = None"
  by (simp add: leave_registry)

lemma leave_non_member_own_key:
  assumes key: "d \<notin> set objectPrototypeKeys"
    and inv: "registry_inv reg" and out: "u |\<notin>| members reg d"
  shows "fst (socketHandler reg (LeaveDocument d u)) = reg"
    and "snd (snd (socketHandler reg (LeaveDocument d u))) = None"
proof -
  show "fst (socketHandler reg (LeaveDocument d u)) = reg"
  proof (cases "reg d")
    case None
    then show ?thesis by (simp add: leave_registry)
  next
    case (Some s)
    with inv have "s \<noteq> {||}"
      by (auto simp: registry_inv_def)
    moreover from Some out have "s |-| {|u|} = s"
      by (simp add: members_def)
    ultimately show ?thesis
      using Some by (simp add: leave_registry fun_upd_idem)
  qed
  from key show "snd (snd (socketHandler reg (LeaveDocument d u))) = None"
    by (simp add: handleUserLeaveDocument_def getProperty_own Let_def split: option.splits)
qed

section \<open>The Transform Function\<close>

text \<open>
  C1. The claim: for \<open>pending\<close> and \<open>applied\<close> of different users, on the same
  document, \<open>pending\<close> with the strictly greater timestamp, an insert at a position not
  after that of \<open>pending\<close> moves \<open>pending\<close> forward by the length of the inserted
  text. The code adds doubles: a pending position \<open>2 ^ 53\<close> against the insert of one
  character stays \<open>2 ^ 53\<close>, the operation comes back unchanged, where the claim has
  \<open>2 ^ 53 + 1\<close>.
\<close>

theorem transform_insert_rounds:
  "transformOperation
     \<lparr>type_op = Insert, position = 9007199254740992, text_op = Some ''x'', length_op = None,
      userId = ''bob'', documentId = ''doc'', timestamp = 2, version = 0\<rparr>
     \<lparr>type_op = Insert, position = 0, text_op = Some ''a'', length_op = None,
      userId = ''alice'', documentId = ''doc'', timestamp = 1, version = 0\<rparr>
   = \<lparr>type_op = Insert, position = 9007199254740992, text_op = Some ''x'', length_op = None,
      userId = ''bob'', documentId = ''doc'', timestamp = 2, version = 0\<rparr>
   \<and> 9007199254740992 + int (length ''a'') = 9007199254740993"
  by (simp add: transformOperation_def add_double_def round_double_tie)

text \<open>
  C1, as the code has it. Let \<open>pending\<close> and \<open>applied\<close> come from different users,
  target the same document, and let \<open>pending\<close> carry the strictly greater timestamp.
  If \<open>applied\<close> is an insert at a position not after that of \<open>pending\<close>, and the
  position of \<open>pending\<close> plus the length of the inserted text is at most \<open>2 ^ 53\<close> in
  magnitude, \<open>transformOperation\<close> returns \<open>pending\<close> with its position moved
  forward by that length. If \<open>applied\<close> is an insert at a greater position, or
  carries no text, \<open>pending\<close> comes back unchanged. The witness is the example of the
  specification: \<open>''abc''\<close> inserted at 5 moves a pending position 5 to 8.
\<close>

theorem transform_against_insert:
  assumes "userId pending \<noteq> userId applied"
    and "documentId pending = documentId applied"
    and "timestamp applied < timestamp pending"
    and "type_op applied = Insert"
  shows "(text_op applied = Some txt \<longrightarrow> position applied \<le> position pending \<longrightarrow>
            \<bar>position pending + int (length txt)\<bar> \<le> 2 ^ 53 \<longrightarrow>
            transformOperation pending applied =
              pending\<lparr>position := position pending + int (length txt)\<rparr>)
       \<and> (position pending < position applied \<longrightarrow>
            transformOperation pending applied = pending)
       \<and> (text_op applied = None \<longrightarrow> transformOperation pending applied = pending)"
  using assms
  by (auto simp: transformOperation_def add_double_exact split: option.splits)

theorem transform_against_insert_witness:
  "transformOperation
     \<lparr>type_op = Insert, position = 5, text_op = Some ''x'', length_op = None,
      userId = ''bob'', documentId = ''doc'', timestamp = 2, version = 0\<rparr>
     \<lparr>type_op = Insert, position = 5, text_op = Some ''abc'', length_op = None,
      userId = ''alice'', documentId = ''doc'', timestamp = 1, version = 0\<rparr>
   = \<lparr>type_op = Insert, position = 8, text_op = Some ''x'', length_op = None,
      userId = ''bob'', documentId = ''doc'', timestamp = 2, version = 0\<rparr>
   \<and> transformOperation
     \<lparr>type_op = Insert, position = 4, text_op = Some ''x'', length_op = None,
      userId = ''bob'', documentId = ''doc'', timestamp = 2, version = 0\<rparr>
     \<lparr>type_op = Insert, position = 5, text_op = Some ''abc'', length_op = None,
      userId = ''alice'', documentId = ''doc'', timestamp = 1, version = 0\<rparr>
   = \<lparr>type_op = Insert, position = 4, text_op = Some ''x'', length_op = None,
      userId = ''bob'', documentId = ''doc'', timestamp = 2, version = 0\<rparr>"
  using
    transform_against_insert [of
      "\<lparr>type_op = Insert, position = 5, text_op = Some ''x'', length_op = None,
        userId = ''bob'', documentId = ''doc'', timestamp = 2, version = 0\<rparr>"
      "\<lparr>type_op = Insert, position = 5, text_op = Some ''abc'', length_op = None,
        userId = ''alice'', documentId = ''doc'', timestamp = 1, version = 0\<rparr>"
      "''abc''"]
    transform_against_insert [of
      "\<lparr>type_op = Insert, position = 4, text_op = Some ''x'', length_op = None,
        userId = ''bob'', documentId = ''doc'', timestamp = 2, version = 0\<rparr>"
      "\<lparr>type_op = Insert, position = 5, text_op = Some ''abc'', length_op = None,
        userId = ''alice'', documentId = ''doc'', timestamp = 1, version = 0\<rparr>"
      "''abc''"]
  by simp

text \<open>
  C2. The claim: under the same conditions, a delete of length \<open>n\<close> at a position
  strictly before that of \<open>pending\<close> moves \<open>pending\<close> back by \<open>n - overlap\<close>. The
  code subtracts doubles: a pending position \<open>2 ^ 53 + 2\<close> against the delete of one
  character at 0 becomes \<open>2 ^ 53\<close>, where the claim has \<open>2 ^ 53 + 1\<close>.
\<close>

theorem transform_delete_rounds:
  "transformOperation
     \<lparr>type_op = Insert, position = 9007199254740994, text_op = Some ''x'', length_op = None,
      userId = ''bob'', documentId = ''doc'', timestamp = 2, version = 0\<rparr>
     \<lparr>type_op = Delete, position = 0, text_op = None, length_op = Some 1,
      userId = ''alice'', documentId = ''doc'', timestamp = 1, version = 0\<rparr>
   = \<lparr>type_op = Insert, position = 9007199254740992, text_op = Some ''x'', length_op = None,
      userId = ''bob'', documentId = ''doc'', timestamp = 2, version = 0\<rparr>
   \<and> 9007199254740994 - (1 - max 0 (0 + 1 - 9007199254740994)) = (9007199254740993 :: int)"
  by (simp add: transformOperation_def add_double_def sub_double_def Let_def
      round_double_tie round_double_tie_neg round_double_exact)

text \<open>
  C2, as the code has it. Under the same conditions on users, document and timestamps:
  if \<open>applied\<close> is a delete of length \<open>n\<close> at a position strictly before that of
  \<open>pending\<close>, and every sum and difference on the way is at most \<open>2 ^ 53\<close> in
  magnitude (the position of \<open>applied\<close> plus \<open>n\<close>, that sum minus the position of
  \<open>pending\<close>, \<open>n\<close> minus the overlap, and the new position),
  \<open>transformOperation\<close> returns \<open>pending\<close> with its position moved back by
  \<open>n - overlap\<close>, where \<open>overlap = max 0 (position applied + n - position pending)\<close>.
  If the delete is at the position of \<open>pending\<close> or after it, or carries no length,
  \<open>pending\<close> comes back unchanged. The witness holds the two examples of the
  specification: a delete of 5 at position 2 moves a pending position 10 to 5 and a
  pending position 4 to 2.
\<close>

theorem transform_against_delete:
  assumes "userId pending \<noteq> userId applied"
    and "documentId pending = documentId applied"
    and "timestamp applied < timestamp pending"
    and "type_op applied = Delete"
  shows "(length_op applied = Some n \<longrightarrow> position applied < position pending \<longrightarrow>
            \<bar>position applied + n\<bar> \<le> 2 ^ 53 \<longrightarrow>
            \<bar>position applied + n - position pending\<bar> \<le> 2 ^ 53 \<longrightarrow>
            \<bar>n - max 0 (position applied + n - position pending)\<bar> \<le> 2 ^ 53 \<longrightarrow>
            \<bar>position pending - (n - max 0 (position applied + n - position pending))\<bar>
              \<le> 2 ^ 53 \<longrightarrow>
            transformOperation pending applied =
              pending\<lparr>position := position pending -
                (n - max 0 (position applied + n - position pending))\<rparr>)
       \<and> (position pending \<le> position applied \<longrightarrow>
            transformOperation pending applied = pending)
       \<and> (length_op applied = None \<longrightarrow> transformOperation pending applied = pending)"
proof (intro conjI impI)
  let ?a = "position applied" and ?p = "position pending"
  assume n: "length_op applied = Some n" and lt: "?a < ?p"
    and b1: "\<bar>?a + n\<bar> \<le> 2 ^ 53"
    and b2: "\<bar>?a + n - ?p\<bar> \<le> 2 ^ 53"
    and b3: "\<bar>n - max 0 (?a + n - ?p)\<bar> \<le> 2 ^ 53"
    and b4: "\<bar>?p - (n - max 0 (?a + n - ?p))\<bar> \<le> 2 ^ 53"
  from b1 have s1: "add_double ?a n = ?a + n"
    by (rule add_double_exact)
  from b2 have s2: "sub_double (?a + n) ?p = ?a + n - ?p"
    by (rule sub_double_exact)
  from b3 have s3: "sub_double n (max 0 (?a + n - ?p)) = n - max 0 (?a + n - ?p)"
    by (rule sub_double_exact)
  from b4 have s4: "sub_double ?p (n - max 0 (?a + n - ?p)) = ?p - (n - max 0 (?a + n - ?p))"
    by (rule sub_double_exact)
  show "transformOperation pending applied =
      pending\<lparr>position := ?p - (n - max 0 (?a + n - ?p))\<rparr>"
  proof (cases "n = 0")
    case True
    with assms n lt show ?thesis
      by (simp add: transformOperation_def)
  next
    case False
    with assms n lt show ?thesis
      by (simp add: transformOperation_def Let_def s1 s2 s3 s4)
  qed
next
  assume "position pending \<le> position applied"
  with assms show "transformOperation pending applied = pending"
    by (simp add: transformOperation_def split: option.splits)
next
  assume "length_op applied = None"
  with assms show "transformOperation pending applied = pending"
    by (simp add: transformOperation_def)
qed

theorem transform_against_delete_witness:
  "transformOperation
     \<lparr>type_op = Insert, position = 10, text_op = Some ''x'', length_op = None,
      userId = ''bob'', documentId = ''doc'', timestamp = 2, version = 0\<rparr>
     \<lparr>type_op = Delete, position = 2, text_op = None, length_op = Some 5,
      userId = ''alice'', documentId = ''doc'', timestamp = 1, version = 0\<rparr>
   = \<lparr>type_op = Insert, position = 5, text_op = Some ''x'', length_op = None,
      userId = ''bob'', documentId = ''doc'', timestamp = 2, version = 0\<rparr>
   \<and> transformOperation
     \<lparr>type_op = Insert, position = 4, text_op = Some ''x'', length_op = None,
      userId = ''bob'', documentId = ''doc'', timestamp = 2, version = 0\<rparr>
     \<lparr>type_op = Delete, position = 2, text_op = None, length_op = Some 5,
      userId = ''alice'', documentId = ''doc'', timestamp = 1, version = 0\<rparr>
   = \<lparr>type_op = Insert, position = 2, text_op = Some ''x'', length_op = None,
      userId = ''bob'', documentId = ''doc'', timestamp = 2, version = 0\<rparr>
   \<and> transformOperation
     \<lparr>type_op = Insert, position = 2, text_op = Some ''x'', length_op = None,
      userId = ''bob'', documentId = ''doc'', timestamp = 2, version = 0\<rparr>
     \<lparr>type_op = Delete, position = 2, text_op = None, length_op = Some 5,
      userId = ''alice'', documentId = ''doc'', timestamp = 1, version = 0\<rparr>
   = \<lparr>type_op = Insert, position = 2, text_op = Some ''x'', length_op = None,
      userId = ''bob'', documentId = ''doc'', timestamp = 2, version = 0\<rparr>"
  using
    transform_against_delete [of
      "\<lparr>type_op = Insert, position = 10, text_op = Some ''x'', length_op = None,
        userId = ''bob'', documentId = ''doc'', timestamp = 2, version = 0\<rparr>"
      "\<lparr>type_op = Delete, position = 2, text_op = None, length_op = Some 5,
        userId = ''alice'', documentId = ''doc'', timestamp = 1, version = 0\<rparr>" 5]
    transform_against_delete [of
      "\<lparr>type_op = Insert, position = 4, text_op = Some ''x'', length_op = None,
        userId = ''bob'', documentId = ''doc'', timestamp = 2, version = 0\<rparr>"
      "\<lparr>type_op = Delete, position = 2, text_op = None, length_op = Some 5,
        userId = ''alice'', documentId = ''doc'', timestamp = 1, version = 0\<rparr>" 5]
    transform_against_delete [of
      "\<lparr>type_op = Insert, position = 2, text_op = Some ''x'', length_op = None,
        userId = ''bob'', documentId = ''doc'', timestamp = 2, version = 0\<rparr>"
      "\<lparr>type_op = Delete, position = 2, text_op = None, length_op = Some 5,
        userId = ''alice'', documentId = ''doc'', timestamp = 1, version = 0\<rparr>" 5]
  by simp

text \<open>
  C3. \<open>transformOperation pending applied\<close> is \<open>pending\<close> whenever the two
  operations have the same user, or different documents, or the timestamp of
  \<open>applied\<close> is not smaller than that of \<open>pending\<close>.
\<close>

theorem transform_identity:
  assumes "userId pending = userId applied \<or> documentId pending \<noteq> documentId applied
           \<or> timestamp pending \<le> timestamp applied"
  shows "transformOperation pending applied = pending"
  using assms by (auto simp: transformOperation_def)

theorem transform_identity_witness:
  "transformOperation
     \<lparr>type_op = Insert, position = 5, text_op = Some ''x'', length_op = None,
      userId = ''alice'', documentId = ''doc'', timestamp = 2, version = 0\<rparr>
     \<lparr>type_op = Insert, position = 0, text_op = Some ''abc'', length_op = None,
      userId = ''alice'', documentId = ''doc'', timestamp = 1, version = 0\<rparr>
   = \<lparr>type_op = Insert, position = 5, text_op = Some ''x'', length_op = None,
      userId = ''alice'', documentId = ''doc'', timestamp = 2, version = 0\<rparr>
   \<and> transformOperation
     \<lparr>type_op = Insert, position = 5, text_op = Some ''x'', length_op = None,
      userId = ''bob'', documentId = ''other'', timestamp = 2, version = 0\<rparr>
     \<lparr>type_op = Insert, position = 0, text_op = Some ''abc'', length_op = None,
      userId = ''alice'', documentId = ''doc'', timestamp = 1, version = 0\<rparr>
   = \<lparr>type_op = Insert, position = 5, text_op = Some ''x'', length_op = None,
      userId = ''bob'', documentId = ''other'', timestamp = 2, version = 0\<rparr>
   \<and> transformOperation
     \<lparr>type_op = Insert, position = 5, text_op = Some ''x'', length_op = None,
      userId = ''bob'', documentId = ''doc'', timestamp = 1, version = 0\<rparr>
     \<lparr>type_op = Delete, position = 0, text_op = None, length_op = Some 3,
      userId = ''alice'', documentId = ''doc'', timestamp = 1, version = 0\<rparr>
   = \<lparr>type_op = Insert, position = 5, text_op = Some ''x'', length_op = None,
      userId = ''bob'', documentId = ''doc'', timestamp = 1, version = 0\<rparr>"
  using
    transform_identity [of
      "\<lparr>type_op = Insert, position = 5, text_op = Some ''x'', length_op = None,
        userId = ''alice'', documentId = ''doc'', timestamp = 2, version = 0\<rparr>"
      "\<lparr>type_op = Insert, position = 0, text_op = Some ''abc'', length_op = None,
        userId = ''alice'', documentId = ''doc'', timestamp = 1, version = 0\<rparr>"]
    transform_identity [of
      "\<lparr>type_op = Insert, position = 5, text_op = Some ''x'', length_op = None,
        userId = ''bob'', documentId = ''other'', timestamp = 2, version = 0\<rparr>"
      "\<lparr>type_op = Insert, position = 0, text_op = Some ''abc'', length_op = None,
        userId = ''alice'', documentId = ''doc'', timestamp = 1, version = 0\<rparr>"]
    transform_identity [of
      "\<lparr>type_op = Insert, position = 5, text_op = Some ''x'', length_op = None,
        userId = ''bob'', documentId = ''doc'', timestamp = 1, version = 0\<rparr>"
      "\<lparr>type_op = Delete, position = 0, text_op = None, length_op = Some 3,
        userId = ''alice'', documentId = ''doc'', timestamp = 1, version = 0\<rparr>"]
  by simp

text \<open>
  C10. Whatever the two operations are, \<open>transformOperation pending applied\<close> has the
  type, text, length, user, document, timestamp and version of \<open>pending\<close>: only the
  position can differ.
\<close>

theorem transform_frame:
  "type_op (transformOperation pending applied) = type_op pending \<and>
   text_op (transformOperation pending applied) = text_op pending \<and>
   length_op (transformOperation pending applied) = length_op pending \<and>
   userId (transformOperation pending applied) = userId pending \<and>
   documentId (transformOperation pending applied) = documentId pending \<and>
   timestamp (transformOperation pending applied) = timestamp pending \<and>
   version (transformOperation pending applied) = version pending"
  by (simp add: transformOperation_def Let_def split: option.splits op_type.splits)

theorem transform_frame_witness:
  "position (transformOperation
     \<lparr>type_op = Delete, position = 5, text_op = None, length_op = Some 2,
      userId = ''bob'', documentId = ''doc'', timestamp = 2, version = 7\<rparr>
     \<lparr>type_op = Insert, position = 5, text_op = Some ''abc'', length_op = None,
      userId = ''alice'', documentId = ''doc'', timestamp = 1, version = 3\<rparr>) = 8
   \<and> transformOperation
     \<lparr>type_op = Delete, position = 5, text_op = None, length_op = Some 2,
      userId = ''bob'', documentId = ''doc'', timestamp = 2, version = 7\<rparr>
     \<lparr>type_op = Insert, position = 5, text_op = Some ''abc'', length_op = None,
      userId = ''alice'', documentId = ''doc'', timestamp = 1, version = 3\<rparr>
   = \<lparr>type_op = Delete, position = 8, text_op = None, length_op = Some 2,
      userId = ''bob'', documentId = ''doc'', timestamp = 2, version = 7\<rparr>"
proof -
  let ?p = "\<lparr>type_op = Delete, position = 5, text_op = None, length_op = Some 2,
      userId = ''bob'', documentId = ''doc'', timestamp = 2, version = 7\<rparr>"
  let ?a = "\<lparr>type_op = Insert, position = 5, text_op = Some ''abc'', length_op = None,
      userId = ''alice'', documentId = ''doc'', timestamp = 1, version = 3\<rparr>"
  have pos: "position (transformOperation ?p ?a) = 8"
    by (simp add: transformOperation_def add_double_exact)
  have "transformOperation ?p ?a =
      \<lparr>type_op = Delete, position = 8, text_op = None, length_op = Some 2,
       userId = ''bob'', documentId = ''doc'', timestamp = 2, version = 7\<rparr>"
    using transform_frame [of ?p ?a] pos
    by (cases "transformOperation ?p ?a") simp
  with pos show ?thesis by simp
qed

section \<open>The Edit Applier\<close>

text \<open>
  C4. The claim: \<open>applyInsert\<close> fails exactly for an operation that is not an insert
  or has no text, and otherwise splices the text in at the position clamped to
  \<open>[0, length buffer]\<close>. The error condition and the upper clamp are those of the code
  (\<open>applyInsert_fails_iff\<close>, \<open>applyInsert_nonneg\<close>, \<open>applyInsert_clamps_high\<close>),
  but ot.ts takes only the minimum with the length of the content: a negative position
  reaches \<^verbatim>\<open>slice\<close>, which counts it from the end. At position \<open>-2\<close> in
  \<open>''hello''\<close> the code inserts before the last two characters, where the clamp to 0
  would insert in front.
\<close>

theorem applyInsert_negative_position:
  "applyInsert ''hello''
     \<lparr>type_op = Insert, position = - 2, text_op = Some ''!'', length_op = None,
      userId = ''u'', documentId = ''d'', timestamp = 0, version = 0\<rparr> = Inr ''hel!lo''
   \<and> applyInsert_spec ''hello''
     \<lparr>type_op = Insert, position = - 2, text_op = Some ''!'', length_op = None,
      userId = ''u'', documentId = ''d'', timestamp = 0, version = 0\<rparr> = Inr ''!hello''"
  by (simp add: applyInsert_def applyInsert_spec_def slice_def slice_from_def slice_index_def)

theorem applyInsert_negative_position_witness:
  "applyInsert ''hello''
     \<lparr>type_op = Insert, position = - 2, text_op = Some ''!'', length_op = None,
      userId = ''u'', documentId = ''d'', timestamp = 0, version = 0\<rparr>
   \<noteq> applyInsert_spec ''hello''
     \<lparr>type_op = Insert, position = - 2, text_op = Some ''!'', length_op = None,
      userId = ''u'', documentId = ''d'', timestamp = 0, version = 0\<rparr>"
  using applyInsert_negative_position by simp

text \<open>
  C5. The claim: \<open>applyDelete\<close> fails exactly for an operation that is not a delete
  or whose length is not positive, and otherwise removes the span after clamping
  position and length. ot.ts tests \<^verbatim>\<open>!operation.length\<close>, which a negative length
  passes (\<open>applyDelete_fails_iff\<close>): the delete of length \<open>-1\<close> at position 2 of
  \<open>''hello''\<close> is not refused and returns a longer string, with one character
  repeated. On non-negative positions and lengths the code is the delete of the
  specification (\<open>applyDelete_nonneg\<close>, \<open>applyDelete_clamps_length\<close>).
\<close>

theorem applyDelete_negative_length:
  "applyDelete ''hello''
     \<lparr>type_op = Delete, position = 2, text_op = None, length_op = Some (- 1),
      userId = ''u'', documentId = ''d'', timestamp = 0, version = 0\<rparr> = Inr ''heello''
   \<and> applyDelete_spec ''hello''
     \<lparr>type_op = Delete, position = 2, text_op = None, length_op = Some (- 1),
      userId = ''u'', documentId = ''d'', timestamp = 0, version = 0\<rparr>
     = Inl (Error ''Invalid delete operation'')"
  by (simp add: applyDelete_def applyDelete_spec_def slice_def slice_from_def slice_index_def
      add_double_exact sub_double_exact)

theorem applyDelete_negative_length_witness:
  "applyDelete ''hello''
     \<lparr>type_op = Delete, position = 2, text_op = None, length_op = Some (- 1),
      userId = ''u'', documentId = ''d'', timestamp = 0, version = 0\<rparr>
   \<noteq> applyDelete_spec ''hello''
     \<lparr>type_op = Delete, position = 2, text_op = None, length_op = Some (- 1),
      userId = ''u'', documentId = ''d'', timestamp = 0, version = 0\<rparr>"
  using applyDelete_negative_length by simp

section \<open>The Presence Registry\<close>

text \<open>
  C6. The claim: the registry has set semantics per document; in particular the joins
  of N distinct users leave N members, for any document. On document identifiers that
  are not inherited names the code does so (\<open>join_twice\<close>, \<open>joins_own_key\<close>,
  \<open>join_then_leave\<close>). \<^verbatim>\<open>activeDocuments\<close> is a plain object, though: for the
  document \<open>''constructor''\<close> the read gives the inherited function, no set is
  created, the call of \<^verbatim>\<open>add\<close> throws a \<^verbatim>\<open>TypeError\<close> after \<^verbatim>\<open>socket.join\<close>, and
  after the joins of two distinct users the document has no member.
\<close>

theorem join_inherited_key_throws:
  "socketHandler Map.empty (JoinDocument ''constructor'' ''alice'')
     = (Map.empty, [SocketJoin ''constructor''],
        Some (TypeError ''activeDocuments[documentId].add is not a function''))
   \<and> fcard (members
        (fold (\<lambda>u r. fst (socketHandler r (JoinDocument ''constructor'' u)))
           [''alice'', ''bob''] Map.empty) ''constructor'') = 0
   \<and> distinct [''alice'', ''bob'']"
  by (simp add: onJoinDocument_def getProperty_def objectPrototypeKeys_def members_def)

theorem join_inherited_key_throws_witness:
  "fcard (members
        (fold (\<lambda>u r. fst (socketHandler r (JoinDocument ''constructor'' u)))
           [''alice'', ''bob''] Map.empty) ''constructor'') \<noteq> length [''alice'', ''bob'']"
  using join_inherited_key_throws [THEN conjunct2, THEN conjunct1] by (simp add: fcard_fempty)

text \<open>
  C7. The claim: every handler keeps every document of the registry with a member
  (it does: \<open>handler_inv\<close>, \<open>run_inv\<close>), the set is created on the first join, the
  key is deleted when the last member leaves (\<open>last_leave\<close>), and the leave of a user
  who is not a member is a no-op without error. On document identifiers that are not
  inherited names the code does all of it (\<open>first_join_own_key\<close>,
  \<open>leave_non_member_own_key\<close>). For the document \<open>''toString''\<close>, from the empty
  registry, the first join creates no set and the leave of a user who is not a member
  throws a \<^verbatim>\<open>TypeError\<close>: the read gives the inherited function, which is truthy and
  has no \<^verbatim>\<open>delete\<close>.
\<close>

theorem leave_inherited_key_throws:
  "socketHandler Map.empty (LeaveDocument ''toString'' ''alice'')
     = (Map.empty, [SocketLeave ''toString''],
        Some (TypeError ''activeDocuments[documentId].delete is not a function''))
   \<and> ''alice'' |\<notin>| members Map.empty ''toString''
   \<and> fst (socketHandler Map.empty (JoinDocument ''toString'' ''alice'')) ''toString'' = None"
  by (simp add: onJoinDocument_def handleUserLeaveDocument_def getProperty_def
      objectPrototypeKeys_def members_def)

theorem leave_inherited_key_throws_witness:
  "snd (snd (socketHandler Map.empty (LeaveDocument ''toString'' ''alice''))) \<noteq> None
   \<and> fst (socketHandler Map.empty (JoinDocument ''toString'' ''alice'')) ''toString''
        \<noteq> Some {|''alice''|}"
  using leave_inherited_key_throws by simp

section \<open>Disconnect\<close>

text \<open>
  C8. The claim: a connection that joined a document and disconnects without leaving
  is removed from the registry, as by a leave. The \<^verbatim>\<open>disconnect\<close> handler of socket.ts
  changes nothing: after the join and the disconnect of connection \<open>s1\<close> the registry
  still lists \<open>alice\<close> in \<open>doc\<close>, where the explicit leave would have deleted the
  key.
\<close>

theorem disconnect_keeps_presence:
  "run Map.empty [(''s1'', JoinDocument ''doc'' ''alice''), (''s1'', Disconnect)] ''doc''
     = Some {|''alice''|}
   \<and> run Map.empty
       [(''s1'', JoinDocument ''doc'' ''alice''), (''s1'', LeaveDocument ''doc'' ''alice'')] ''doc''
     = None"
  by (simp add: join_registry leave_registry members_def objectPrototypeKeys_def)

theorem disconnect_keeps_presence_witness:
  "run Map.empty [(''s1'', JoinDocument ''doc'' ''alice''), (''s1'', Disconnect)] ''doc''
   \<noteq> run Map.empty
       [(''s1'', JoinDocument ''doc'' ''alice''), (''s1'', LeaveDocument ''doc'' ''alice'')] ''doc''"
  using disconnect_keeps_presence by simp

section \<open>The Client Session Store\<close>

text \<open>
  C9. The claim: a remote operation of the local user is discarded, every other one is
  applied to the local buffer by the Edit Applier. The first half holds. For the
  second, the client never calls the Edit Applier: a delete from another user leaves
  the buffer \<open>''hello''\<close> as it is, where \<open>applyOperation\<close> of ot.ts removes its first
  character.
\<close>

theorem remote_delete_not_applied:
  "applyOperation_client Some (Some ''me'') ''hello''
     \<lparr>type_op = Delete, position = 0, text_op = None, length_op = Some 1,
      userId = ''other'', documentId = ''d'', timestamp = 0, version = 0\<rparr> = ''hello''
   \<and> applyOperation ''hello''
     \<lparr>type_op = Delete, position = 0, text_op = None, length_op = Some 1,
      userId = ''other'', documentId = ''d'', timestamp = 0, version = 0\<rparr> = Inr ''ello''"
  by (simp add: applyOperation_client_def applyOperation_def applyDelete_def
      slice_def slice_from_def slice_index_def add_double_exact sub_double_exact)

text \<open>
  C9, as the code has it. An operation of the local user leaves the editor state
  unchanged. An insert with a non-empty text from anyone else replaces the whole editor
  state by the state decoded from the text, and leaves it unchanged when the text does
  not decode. Every other operation (a delete, an insert without text) leaves the state
  unchanged.
\<close>

theorem remote_operation_replaces_content:
  "(user = Some (userId operation) \<longrightarrow>
      applyOperation_client decode user editorState operation = editorState)
   \<and> (user \<noteq> Some (userId operation) \<longrightarrow> type_op operation = Insert \<longrightarrow>
        text_op operation = Some txt \<longrightarrow> txt \<noteq> [] \<longrightarrow>
        applyOperation_client decode user editorState operation =
          (case decode txt of None \<Rightarrow> editorState | Some newState \<Rightarrow> newState))
   \<and> (type_op operation = Delete \<or> text_op operation = None \<or> text_op operation = Some [] \<longrightarrow>
        applyOperation_client decode user editorState operation = editorState)"
  by (auto simp: applyOperation_client_def split: option.splits)

theorem remote_operation_replaces_content_witness:
  "applyOperation_client Some (Some ''me'') ''hello''
     \<lparr>type_op = Insert, position = 5, text_op = Some ''!'', length_op = None,
      userId = ''me'', documentId = ''d'', timestamp = 0, version = 0\<rparr> = ''hello''
   \<and> applyOperation_client Some (Some ''me'') ''hello''
     \<lparr>type_op = Insert, position = 5, text_op = Some ''!'', length_op = None,
      userId = ''other'', documentId = ''d'', timestamp = 0, version = 0\<rparr> = ''!''
   \<and> applyOperation_client (\<lambda>t. None) (Some ''me'') ''hello''
     \<lparr>type_op = Insert, position = 5, text_op = Some ''!'', length_op = None,
      userId = ''other'', documentId = ''d'', timestamp = 0, version = 0\<rparr> = ''hello''
   \<and> applyOperation_client Some (Some ''me'') ''hello''
     \<lparr>type_op = Delete, position = 0, text_op = None, length_op = Some 1,
      userId = ''other'', documentId = ''d'', timestamp = 0, version = 0\<rparr> = ''hello''"
  using
    remote_operation_replaces_content [of "Some ''me''"
      "\<lparr>type_op = Insert, position = 5, text_op = Some ''!'', length_op = None,
        userId = ''me'', documentId = ''d'', timestamp = 0, version = 0\<rparr>"
      Some "''hello''" "''!''"]
    remote_operation_replaces_content [of "Some ''me''"
      "\<lparr>type_op = Insert, position = 5, text_op = Some ''!'', length_op = None,
        userId = ''other'', documentId = ''d'', timestamp = 0, version = 0\<rparr>"
      Some "''hello''" "''!''"]
    remote_operation_replaces_content [of "Some ''me''"
      "\<lparr>type_op = Insert, position = 5, text_op = Some ''!'', length_op = None,
        userId = ''other'', documentId = ''d'', timestamp = 0, version = 0\<rparr>"
      "\<lambda>t. None" "''hello''" "''!''"]
    remote_operation_replaces_content [of "Some ''me''"
      "\<lparr>type_op = Delete, position = 0, text_op = None, length_op = Some 1,
        userId = ''other'', documentId = ''d'', timestamp = 0, version = 0\<rparr>"
      Some "''hello''" "''!''"]
  by simp

end
